theory Spec2Isabelle
  imports Main "HOL-Library.Word" "HOL-Library.Multiset"
begin

section \<open>Feature tensors and CTR identities (catboost/cuda/data/feature.h)\<close>

text \<open>
  A shallow embedding of \<^verbatim>\<open>TBinarySplit\<close>, \<^verbatim>\<open>TFeatureTensor\<close> and \<^verbatim>\<open>TCtr\<close>.
  \<^verbatim>\<open>ui32\<close> is \<open>32 word\<close>, \<^verbatim>\<open>ui64\<close> hash values are \<open>64 word\<close>, a \<^verbatim>\<open>TVector\<close> is a
  list. Container sizes are \<open>nat\<close>: a vector holds far fewer than \<open>2 ^ 64\<close> elements, so
  the \<^verbatim>\<open>ui64\<close> sums of sizes in \<^verbatim>\<open>Size\<close>, \<^verbatim>\<open>IsSimple\<close> and \<^verbatim>\<open>GetComplexity\<close> never
  wrap. Member functions take the receiver as their first argument and return the
  updated object.
\<close>

subsection \<open>EBinSplitType and TBinarySplit\<close>

datatype EBinSplitType = TakeBin | TakeGreater

text \<open>The enumerators' underlying values, which the built-in \<^verbatim>\<open><\<close> of an enum class compares.\<close>

fun EBinSplitType_value :: "EBinSplitType \<Rightarrow> nat" where
  "EBinSplitType_value TakeBin = 0"
| "EBinSplitType_value TakeGreater = 1"

definition EBinSplitType_less :: "EBinSplitType \<Rightarrow> EBinSplitType \<Rightarrow> bool" where
  "EBinSplitType_less a b = (EBinSplitType_value a < EBinSplitType_value b)"

record TBinarySplit =
  FeatureId :: "32 word"
  BinIdx :: "32 word"
  SplitType :: EBinSplitType

text \<open>The three-argument constructor.\<close>

definition TBinarySplit_init :: "32 word \<Rightarrow> 32 word \<Rightarrow> EBinSplitType \<Rightarrow> TBinarySplit" where
  "TBinarySplit_init featureId binIdx splitType =
     \<lparr>FeatureId = featureId, BinIdx = binIdx, SplitType = splitType\<rparr>"

text \<open>
  \<^verbatim>\<open>operator<\<close>: \<^verbatim>\<open>std::tie(...) < std::tie(...)\<close> on three fields. The tuple comparison
  goes through the fields from the left and uses only \<^verbatim>\<open><\<close> of the field types:
  \<^verbatim>\<open>a0 < b0 || (!(b0 < a0) && (a1 < b1 || (!(b1 < a1) && a2 < b2)))\<close>.
\<close>

definition TBinarySplit_less :: "TBinarySplit \<Rightarrow> TBinarySplit \<Rightarrow> bool" where
  "TBinarySplit_less a b =
     (FeatureId a < FeatureId b \<or>
      (\<not> FeatureId b < FeatureId a \<and>
       (BinIdx a < BinIdx b \<or>
        (\<not> BinIdx b < BinIdx a \<and> EBinSplitType_less (SplitType a) (SplitType b)))))"

text \<open>\<^verbatim>\<open>operator==\<close>: tuple equality, field by field.\<close>

definition TBinarySplit_eq :: "TBinarySplit \<Rightarrow> TBinarySplit \<Rightarrow> bool" where
  "TBinarySplit_eq a b =
     (FeatureId a = FeatureId b \<and> BinIdx a = BinIdx b \<and> SplitType a = SplitType b)"

definition TBinarySplit_neq :: "TBinarySplit \<Rightarrow> TBinarySplit \<Rightarrow> bool" where
  "TBinarySplit_neq a b = (\<not> TBinarySplit_eq a b)"

subsection \<open>Vectors: comparison, Sort and Unique\<close>

text \<open>\<^verbatim>\<open>operator==\<close> of two vectors: the same size and equal elements, position by position.\<close>

fun vector_eq :: "('a \<Rightarrow> 'a \<Rightarrow> bool) \<Rightarrow> 'a list \<Rightarrow> 'a list \<Rightarrow> bool" where
  "vector_eq eq [] [] = True"
| "vector_eq eq (x # xs) (y # ys) = (eq x y \<and> vector_eq eq xs ys)"
| "vector_eq eq _ _ = False"

text \<open>
  \<^verbatim>\<open>operator<\<close> of two vectors is \<^verbatim>\<open>std::lexicographical_compare\<close> with the elements'
  \<^verbatim>\<open><\<close>: the first position where one element is less than the other decides, and a
  proper prefix is less.
\<close>

fun vector_less :: "('a \<Rightarrow> 'a \<Rightarrow> bool) \<Rightarrow> 'a list \<Rightarrow> 'a list \<Rightarrow> bool" where
  "vector_less lt [] [] = False"
| "vector_less lt [] (y # ys) = True"
| "vector_less lt (x # xs) [] = False"
| "vector_less lt (x # xs) (y # ys) =
     (if lt x y then True else if lt y x then False else vector_less lt xs ys)"

text \<open>
  \<^verbatim>\<open>Sort(begin, end)\<close> sorts a range in ascending order of the elements' \<^verbatim>\<open>operator<\<close>.
  The library's algorithm is not part of this file; it is modelled by insertion sort.
  For the two element orders used here the choice is immaterial: lemma
  \<open>Sort_unique_result\<close> below shows that every ascending rearrangement of the input
  is the list computed here.
\<close>

fun insert_sorted :: "('a \<Rightarrow> 'a \<Rightarrow> bool) \<Rightarrow> 'a \<Rightarrow> 'a list \<Rightarrow> 'a list" where
  "insert_sorted lt x [] = [x]"
| "insert_sorted lt x (y # ys) =
     (if lt x y then x # y # ys else y # insert_sorted lt x ys)"

fun Sort :: "('a \<Rightarrow> 'a \<Rightarrow> bool) \<Rightarrow> 'a list \<Rightarrow> 'a list" where
  "Sort lt [] = []"
| "Sort lt (x # xs) = insert_sorted lt x (Sort lt xs)"

text \<open>
  \<^verbatim>\<open>Unique(vector)\<close>: \<^verbatim>\<open>std::unique\<close> keeps the first element of every run of
  consecutive elements equal under \<^verbatim>\<open>operator==\<close> and returns the end of the kept
  range; \<^verbatim>\<open>resize\<close> then cuts the vector to that range.
\<close>

fun Unique :: "('a \<Rightarrow> 'a \<Rightarrow> bool) \<Rightarrow> 'a list \<Rightarrow> 'a list" where
  "Unique eq [] = []"
| "Unique eq [x] = [x]"
| "Unique eq (x # y # xs) =
     (if eq x y then Unique eq (x # xs) else x # Unique eq (y # xs))"

text \<open>A range-for loop that calls \<^verbatim>\<open>push_back\<close> for every element of \<open>ys\<close>.\<close>

fun push_back_all :: "'a list \<Rightarrow> 'a list \<Rightarrow> 'a list" where
  "push_back_all v [] = v"
| "push_back_all v (y # ys) = push_back_all (v @ [y]) ys"

subsection \<open>TFeatureTensor\<close>

record TFeatureTensor =
  Splits :: "TBinarySplit list"
  CatFeatures :: "32 word list"

text \<open>The default constructor: both vectors empty.\<close>

definition TFeatureTensor_empty :: TFeatureTensor where
  "TFeatureTensor_empty = \<lparr>Splits = [], CatFeatures = []\<rparr>"

definition IsSimple :: "TFeatureTensor \<Rightarrow> bool" where
  "IsSimple t = (length (Splits t) + length (CatFeatures t) = 1)"

definition SortUniqueSplits :: "TFeatureTensor \<Rightarrow> TFeatureTensor" where
  "SortUniqueSplits t =
     t\<lparr>Splits := Unique TBinarySplit_eq (Sort TBinarySplit_less (Splits t))\<rparr>"

definition SortUniqueCatFeatures :: "TFeatureTensor \<Rightarrow> TFeatureTensor" where
  "SortUniqueCatFeatures t =
     t\<lparr>CatFeatures := Unique (=) (Sort (<) (CatFeatures t))\<rparr>"

definition AddBinarySplit :: "TFeatureTensor \<Rightarrow> TBinarySplit \<Rightarrow> TFeatureTensor" where
  "AddBinarySplit t bin = SortUniqueSplits (t\<lparr>Splits := Splits t @ [bin]\<rparr>)"

definition AddBinarySplit_list :: "TFeatureTensor \<Rightarrow> TBinarySplit list \<Rightarrow> TFeatureTensor" where
  "AddBinarySplit_list t splits =
     SortUniqueSplits (t\<lparr>Splits := push_back_all (Splits t) splits\<rparr>)"

definition AddCatFeature_list :: "TFeatureTensor \<Rightarrow> 32 word list \<Rightarrow> TFeatureTensor" where
  "AddCatFeature_list t featureIds =
     SortUniqueCatFeatures (t\<lparr>CatFeatures := push_back_all (CatFeatures t) featureIds\<rparr>)"

definition AddCatFeature :: "TFeatureTensor \<Rightarrow> 32 word \<Rightarrow> TFeatureTensor" where
  "AddCatFeature t featureId =
     SortUniqueCatFeatures (t\<lparr>CatFeatures := CatFeatures t @ [featureId]\<rparr>)"

text \<open>
  \<^verbatim>\<open>AddTensor\<close> takes its argument by reference; the model passes it by value, which
  is the same for every call whose argument is another object than the receiver.
\<close>

definition AddTensor :: "TFeatureTensor \<Rightarrow> TFeatureTensor \<Rightarrow> TFeatureTensor" where
  "AddTensor t tensor =
     SortUniqueCatFeatures (SortUniqueSplits
       (t\<lparr>Splits := push_back_all (Splits t) (Splits tensor),
          CatFeatures := push_back_all (CatFeatures t) (CatFeatures tensor)\<rparr>))"

definition GetSplits :: "TFeatureTensor \<Rightarrow> TBinarySplit list" where
  "GetSplits t = Splits t"

definition GetCatFeatures :: "TFeatureTensor \<Rightarrow> 32 word list" where
  "GetCatFeatures t = CatFeatures t"

definition TFeatureTensor_eq :: "TFeatureTensor \<Rightarrow> TFeatureTensor \<Rightarrow> bool" where
  "TFeatureTensor_eq t other =
     (vector_eq TBinarySplit_eq (Splits t) (GetSplits other) \<and>
      vector_eq (=) (CatFeatures t) (GetCatFeatures other))"

definition TFeatureTensor_neq :: "TFeatureTensor \<Rightarrow> TFeatureTensor \<Rightarrow> bool" where
  "TFeatureTensor_neq t other = (\<not> TFeatureTensor_eq t other)"

definition IsEmpty :: "TFeatureTensor \<Rightarrow> bool" where
  "IsEmpty t = (length (CatFeatures t) = 0 \<and> length (Splits t) = 0)"

definition Size :: "TFeatureTensor \<Rightarrow> nat" where
  "Size t = length (CatFeatures t) + length (Splits t)"

text \<open>\<^verbatim>\<open>operator<\<close>: the tuple comparison of \<^verbatim>\<open>std::tie(Splits, CatFeatures)\<close>.\<close>

definition TFeatureTensor_less :: "TFeatureTensor \<Rightarrow> TFeatureTensor \<Rightarrow> bool" where
  "TFeatureTensor_less t other =
     (vector_less TBinarySplit_less (Splits t) (Splits other) \<or>
      (\<not> vector_less TBinarySplit_less (Splits other) (Splits t) \<and>
       vector_less (<) (CatFeatures t) (CatFeatures other)))"

definition GetComplexity :: "TFeatureTensor \<Rightarrow> nat" where
  "GetComplexity t = length (CatFeatures t) + min (length (Splits t)) 1"

text \<open>
  Modelled from the spec: the helper \<^verbatim>\<open>NCatboostCuda::IsSubset\<close> on two vectors comes
  from \<^verbatim>\<open>helpers.h\<close>, which is not among the sources. The specification gives its
  meaning on the canonical sorted sequences: every element of the first vector also
  appears in the second.
\<close>

definition IsSubset_vector :: "'a list \<Rightarrow> 'a list \<Rightarrow> bool" where
  "IsSubset_vector xs ys = list_all (\<lambda>x. x \<in> set ys) xs"

definition IsSubset :: "TFeatureTensor \<Rightarrow> TFeatureTensor \<Rightarrow> bool" where
  "IsSubset t other =
     (IsSubset_vector (Splits t) (Splits other) \<and>
      IsSubset_vector (CatFeatures t) (CatFeatures other))"

subsection \<open>Hashing and the CTR configuration: what the file takes from elsewhere\<close>

text \<open>
  The hash combinators (\<^verbatim>\<open>MultiHash\<close>, \<^verbatim>\<open>TVecHash\<close>, \<^verbatim>\<open>VecCityHash\<close>) and the type
  \<^verbatim>\<open>TCtrConfig\<close> are declared in other headers, which are not among the sources.
\<close>


text \<open>
  Modelled from the spec: \<^verbatim>\<open>MultiHash\<close> on a tensor and a configuration, declared in
  \<^verbatim>\<open>util/digest/multi.h\<close>. It reaches its two arguments through their \<^verbatim>\<open>THash\<close>
  specialisations at the end of the file, that is, through their \<^verbatim>\<open>GetHash\<close> values.
  The specification says of the hash of a CtrIdentity that it is composed over
  (FeatureTensor, Configuration), and that two CtrIdentity values built from equal
  tensors and different configurations hash differently when the configurations hash
  differently. A combinator of a tensor hash and a configuration hash does so when,
  for every tensor hash, different configuration hashes give different results. The
  type \<open>ordered_tuple_hash\<close> holds the combinators with this property, and nothing
  else is known of the one the code uses.
\<close>

typedef ordered_tuple_hash = "{f :: 64 word \<Rightarrow> 64 word \<Rightarrow> 64 word. \<forall>h. inj (f h)}"
  morphisms combine make_ordered_tuple_hash
proof
  show "(\<lambda>h c. h + c) \<in> {f :: 64 word \<Rightarrow> 64 word \<Rightarrow> 64 word. \<forall>h. inj (f h)}"
    by (simp add: inj_def)
qed

text \<open>
  The other combinators are parameters of the model with nothing assumed of them:
  \<^item> \<open>MultiHash_split\<close> is \<^verbatim>\<open>MultiHash\<close> at the argument types of \<^verbatim>\<open>TBinarySplit::GetHash\<close>;
  \<^item> \<open>MultiHash_tensor\<close> is \<^verbatim>\<open>MultiHash\<close> on the two integers of \<^verbatim>\<open>TFeatureTensor::GetHash\<close>;
  \<^item> \<open>TVecHash\<close> and \<open>VecCityHash\<close> are functions of a vector's contents.
\<close>

record 'cfg externals =
  MultiHash_split :: "32 word \<Rightarrow> 32 word \<Rightarrow> EBinSplitType \<Rightarrow> 64 word"
  MultiHash_tensor :: "64 word \<Rightarrow> 64 word \<Rightarrow> 64 word"
  MultiHash_ctr :: ordered_tuple_hash
  TVecHash :: "TBinarySplit list \<Rightarrow> 64 word"
  VecCityHash :: "32 word list \<Rightarrow> 64 word"
  Config_less :: "'cfg \<Rightarrow> 'cfg \<Rightarrow> bool"
  Config_GetHash :: "'cfg \<Rightarrow> 64 word"


definition TFeatureTensor_GetHash :: "'cfg externals \<Rightarrow> TFeatureTensor \<Rightarrow> 64 word" where
  "TFeatureTensor_GetHash E t =
     MultiHash_tensor E (TVecHash E (Splits t)) (VecCityHash E (CatFeatures t))"

subsection \<open>TCtr\<close>








subsection \<open>Sequences of mutating calls, and the canonical form\<close>

text \<open>One call of a mutating member function, with its argument.\<close>

datatype mutation =
    CallAddBinarySplit TBinarySplit
  | CallAddBinarySplit_list "TBinarySplit list"
  | CallAddCatFeature "32 word"
  | CallAddCatFeature_list "32 word list"
  | CallAddTensor TFeatureTensor

fun apply_mutation :: "TFeatureTensor \<Rightarrow> mutation \<Rightarrow> TFeatureTensor" where
  "apply_mutation t (CallAddBinarySplit bin) = AddBinarySplit t bin"
| "apply_mutation t (CallAddBinarySplit_list splits) = AddBinarySplit_list t splits"
| "apply_mutation t (CallAddCatFeature featureId) = AddCatFeature t featureId"
| "apply_mutation t (CallAddCatFeature_list featureIds) = AddCatFeature_list t featureIds"
| "apply_mutation t (CallAddTensor tensor) = AddTensor t tensor"

text \<open>The calls of a list, made one after the other on \<open>t\<close>.\<close>

definition apply_mutations :: "TFeatureTensor \<Rightarrow> mutation list \<Rightarrow> TFeatureTensor" where
  "apply_mutations t ms = foldl apply_mutation t ms"

text \<open>The splits and the categorical features that a call hands over.\<close>

fun added_splits :: "mutation \<Rightarrow> TBinarySplit list" where
  "added_splits (CallAddBinarySplit bin) = [bin]"
| "added_splits (CallAddBinarySplit_list splits) = splits"
| "added_splits (CallAddCatFeature featureId) = []"
| "added_splits (CallAddCatFeature_list featureIds) = []"
| "added_splits (CallAddTensor tensor) = Splits tensor"

fun added_cat_features :: "mutation \<Rightarrow> 32 word list" where
  "added_cat_features (CallAddBinarySplit bin) = []"
| "added_cat_features (CallAddBinarySplit_list splits) = []"
| "added_cat_features (CallAddCatFeature featureId) = [featureId]"
| "added_cat_features (CallAddCatFeature_list featureIds) = featureIds"
| "added_cat_features (CallAddTensor tensor) = CatFeatures tensor"

text \<open>
  The tensors a program can build: the default-constructed one, and what the mutating
  member functions make of tensors built before.
\<close>

inductive reachable :: "TFeatureTensor \<Rightarrow> bool" where
  reachable_empty: "reachable TFeatureTensor_empty"
| reachable_AddBinarySplit: "reachable t \<Longrightarrow> reachable (AddBinarySplit t bin)"
| reachable_AddBinarySplit_list: "reachable t \<Longrightarrow> reachable (AddBinarySplit_list t splits)"
| reachable_AddCatFeature: "reachable t \<Longrightarrow> reachable (AddCatFeature t featureId)"
| reachable_AddCatFeature_list: "reachable t \<Longrightarrow> reachable (AddCatFeature_list t featureIds)"
| reachable_AddTensor: "reachable t \<Longrightarrow> reachable tensor \<Longrightarrow> reachable (AddTensor t tensor)"

text \<open>
  The canonical form: both sequences ascending in their element order (no element is
  followed by a smaller one) and free of duplicates.
\<close>

definition ascending :: "('a \<Rightarrow> 'a \<Rightarrow> bool) \<Rightarrow> 'a list \<Rightarrow> bool" where
  "ascending lt xs = sorted_wrt (\<lambda>a b. \<not> lt b a) xs"

definition canonical :: "TFeatureTensor \<Rightarrow> bool" where
  "canonical t =
     (ascending TBinarySplit_less (Splits t) \<and> distinct (Splits t) \<and>
      ascending (<) (CatFeatures t) \<and> distinct (CatFeatures t))"

text \<open>The properties of an element order that the proofs below rest on.\<close>

definition strict_total_order :: "('a \<Rightarrow> 'a \<Rightarrow> bool) \<Rightarrow> bool" where
  "strict_total_order lt \<longleftrightarrow>
     (\<forall>a. \<not> lt a a) \<and> (\<forall>a b c. lt a b \<longrightarrow> lt b c \<longrightarrow> lt a c) \<and>
     (\<forall>a b. lt a b \<or> a = b \<or> lt b a)"

subsection \<open>Concrete values\<close>

text \<open>Concrete splits on which the theorems below are instantiated.\<close>

definition split_1_2_greater :: TBinarySplit where
  "split_1_2_greater = TBinarySplit_init 1 2 TakeGreater"

definition split_1_2_bin :: TBinarySplit where
  "split_1_2_bin = TBinarySplit_init 1 2 TakeBin"

definition split_0_5_bin :: TBinarySplit where
  "split_0_5_bin = TBinarySplit_init 0 5 TakeBin"

text \<open>
  An instance of the external parameters, on which the theorems about hashing are
  instantiated. It stands for no particular hash function: configurations are natural
  numbers, and the combinators add their arguments.
\<close>

definition example_externals :: "nat externals" where
  "example_externals =
     \<lparr>MultiHash_split = (\<lambda>f b s. ucast f + 31 * ucast b + of_nat (EBinSplitType_value s)),
      MultiHash_tensor = (\<lambda>x y. x + 31 * y),
      MultiHash_ctr = make_ordered_tuple_hash (\<lambda>x y. x + y),
      TVecHash = (\<lambda>xs. of_nat (length xs)),
      VecCityHash = (\<lambda>xs. foldr (\<lambda>x h. ucast x + 31 * h) xs 0),
      Config_less = (<),
      Config_GetHash = of_nat\<rparr>"

section \<open>Auxiliary facts\<close>

subsection \<open>Sorting and removing duplicates under a strict total order\<close>


lemma strict_total_orderD:
  assumes "strict_total_order lt"
  shows "\<not> lt a a" and "lt a b \<Longrightarrow> lt b c \<Longrightarrow> lt a c" and "\<not> lt a b \<Longrightarrow> a \<noteq> b \<Longrightarrow> lt b a"
    and "lt a b \<Longrightarrow> \<not> lt b a"
  using assms unfolding strict_total_order_def by blast+

lemma push_back_all_append: "push_back_all v ys = v @ ys"
  by (induction ys arbitrary: v) simp_all

lemma set_insert_sorted: "set (insert_sorted lt x xs) = insert x (set xs)"
  by (induction xs) auto

lemma set_Sort: "set (Sort lt xs) = set xs"
  by (induction xs) (simp_all add: set_insert_sorted)

lemma mset_insert_sorted: "mset (insert_sorted lt x xs) = add_mset x (mset xs)"
  by (induction xs) simp_all

lemma mset_Sort: "mset (Sort lt xs) = mset xs"
  by (induction xs) (simp_all add: mset_insert_sorted)

lemma ascending_insert_sorted:
  assumes "strict_total_order lt" and "sorted_wrt (\<lambda>a b. \<not> lt b a) xs"
  shows "sorted_wrt (\<lambda>a b. \<not> lt b a) (insert_sorted lt x xs)"
  using assms(2)
proof (induction xs)
  case Nil
  then show ?case by simp
next
  case (Cons y ys)
  show ?case
  proof (cases "lt x y")
    case True
    have "\<not> lt z x" if "z \<in> set (y # ys)" for z
    proof
      assume zx: "lt z x"
      have "lt z y" using strict_total_orderD(2) [OF assms(1) zx True] .
      moreover have "\<not> lt z y" using that Cons.prems strict_total_orderD(1) [OF assms(1)] by auto
      ultimately show False by simp
    qed
    with True Cons.prems show ?thesis by simp
  next
    case False
    with Cons show ?thesis by (auto simp: set_insert_sorted)
  qed
qed

lemma ascending_Sort:
  "strict_total_order lt \<Longrightarrow> sorted_wrt (\<lambda>a b. \<not> lt b a) (Sort lt xs)"
  by (induction xs) (simp_all add: ascending_insert_sorted)

lemma Unique_equality: "Unique (=) xs = remdups_adj xs"
  by (induction xs rule: remdups_adj.induct) simp_all

lemma strict_remdups_adj:
  assumes "strict_total_order lt"
  shows "sorted_wrt (\<lambda>a b. \<not> lt b a) xs \<Longrightarrow> sorted_wrt lt (remdups_adj xs)"
proof (induction xs rule: remdups_adj.induct)
  case (3 x y xs)
  show ?case
  proof (cases "x = y")
    case True
    with 3 show ?thesis by simp
  next
    case False
    have xy: "lt x y" using "3.prems" False strict_total_orderD(3) [OF assms, of y x] by auto
    have "lt x z" if "z \<in> set xs" for z
    proof -
      have "\<not> lt z y" using that "3.prems" by simp
      then have "y = z \<or> lt y z" using strict_total_orderD(3) [OF assms, of z y] by auto
      then show ?thesis using xy strict_total_orderD(2) [OF assms] by blast
    qed
    with xy False 3 show ?thesis by auto
  qed
qed simp_all

lemma strictly_sorted_unique:
  assumes "strict_total_order lt"
  shows "sorted_wrt lt xs \<Longrightarrow> sorted_wrt lt ys \<Longrightarrow> set xs = set ys \<Longrightarrow> xs = ys"
proof (induction xs arbitrary: ys)
  case Nil
  then show ?case by simp
next
  case (Cons x xs)
  then obtain y ys' where ys: "ys = y # ys'" by (cases ys) auto
  note irr = strict_total_orderD(1) [OF assms] and asym = strict_total_orderD(4) [OF assms]
  have "x = y"
  proof (rule ccontr)
    assume ne: "x \<noteq> y"
    with Cons.prems ys have "x \<in> set ys'" and "y \<in> set xs" by auto
    with Cons.prems ys have "lt y x" and "lt x y" by auto
    with asym show False by blast
  qed
  moreover have "x \<notin> set xs" "y \<notin> set ys'" using Cons.prems ys irr by auto
  ultimately have "set xs = set ys'" using Cons.prems(3) ys by auto
  with Cons ys \<open>x = y\<close> show ?case by simp
qed

lemma ascending_unique:
  assumes "strict_total_order lt"
  shows "sorted_wrt (\<lambda>a b. \<not> lt b a) xs \<Longrightarrow> sorted_wrt (\<lambda>a b. \<not> lt b a) ys
     \<Longrightarrow> mset xs = mset ys \<Longrightarrow> xs = ys"
proof (induction xs arbitrary: ys)
  case Nil
  then show ?case by simp
next
  case (Cons x xs)
  then obtain y ys' where ys: "ys = y # ys'" by (cases ys) auto
  have sets: "set (x # xs) = set (y # ys')" using Cons.prems(3) ys by (metis set_mset_mset)
  have "y \<in> set (x # xs)" and "x \<in> set (y # ys')" using sets by auto
  then have "\<not> lt y x" and "\<not> lt x y"
    using Cons.prems(1,2) ys strict_total_orderD(1) [OF assms] by auto
  then have "x = y" using strict_total_orderD(3) [OF assms] by blast
  with Cons ys show ?case by simp
qed

lemma Sort_unique_result:
  assumes "strict_total_order lt" and "mset ys = mset xs" and "sorted_wrt (\<lambda>a b. \<not> lt b a) ys"
  shows "ys = Sort lt xs"
  using ascending_unique [OF assms(1) assms(3) ascending_Sort [OF assms(1)]] assms(2)
  by (simp add: mset_Sort)

lemma canonical_list:
  assumes "strict_total_order lt"
  shows "sorted_wrt lt (remdups_adj (Sort lt xs))"
  by (rule strict_remdups_adj [OF assms ascending_Sort [OF assms]])

lemma canonical_list_cong:
  assumes "strict_total_order lt" and "set xs = set ys"
  shows "remdups_adj (Sort lt xs) = remdups_adj (Sort lt ys)"
  by (rule strictly_sorted_unique [OF assms(1) canonical_list [OF assms(1)] canonical_list [OF assms(1)]])
     (simp add: set_Sort assms(2))

lemma canonical_list_fixed:
  assumes "strict_total_order lt" and "sorted_wrt lt xs"
  shows "remdups_adj (Sort lt xs) = xs"
  by (rule strictly_sorted_unique [OF assms(1) canonical_list [OF assms(1)] assms(2)])
     (simp add: set_Sort)

lemma TBinarySplit_eq_iff: "TBinarySplit_eq a b \<longleftrightarrow> a = b"
  by (auto simp: TBinarySplit_eq_def)

lemma EBinSplitType_value_inj: "EBinSplitType_value a = EBinSplitType_value b \<Longrightarrow> a = b"
  by (cases a; cases b) simp_all

lemma TBinarySplit_less_lex:
  "TBinarySplit_less a b \<longleftrightarrow>
     (FeatureId a < FeatureId b \<or>
      (FeatureId a = FeatureId b \<and>
       (BinIdx a < BinIdx b \<or>
        (BinIdx a = BinIdx b \<and> EBinSplitType_value (SplitType a) < EBinSplitType_value (SplitType b)))))"
  unfolding TBinarySplit_less_def EBinSplitType_less_def by auto

lemma strict_total_order_TBinarySplit_less: "strict_total_order TBinarySplit_less"
  unfolding strict_total_order_def
proof (intro conjI allI impI)
  fix a b c :: TBinarySplit
  show "\<not> TBinarySplit_less a a" by (simp add: TBinarySplit_less_lex)
  show "TBinarySplit_less a c" if "TBinarySplit_less a b" "TBinarySplit_less b c"
    using that unfolding TBinarySplit_less_lex by (elim disjE conjE) (auto dest: order_less_trans)
  show "TBinarySplit_less a b \<or> a = b \<or> TBinarySplit_less b a"
    unfolding TBinarySplit_less_lex
    by (metis EBinSplitType_value_inj TBinarySplit.equality linorder_less_linear old.unit.exhaust)
qed

lemma strict_total_order_less: "strict_total_order ((<) :: 'a::linorder \<Rightarrow> 'a \<Rightarrow> bool)"
  unfolding strict_total_order_def by auto

lemma strictly_sorted_iff:
  assumes "strict_total_order lt"
  shows "sorted_wrt lt xs \<longleftrightarrow> ascending lt xs \<and> distinct xs"
proof (induction xs)
  case Nil
  then show ?case by (simp add: ascending_def)
next
  case (Cons x xs)
  note D = strict_total_orderD [OF assms]
  have "(\<forall>y\<in>set xs. lt x y) \<longleftrightarrow> (\<forall>y\<in>set xs. \<not> lt y x) \<and> x \<notin> set xs"
    using D(1) D(3) D(4) by metis
  with Cons show ?case by (auto simp: ascending_def)
qed

lemma Unique_TBinarySplit_eq: "Unique TBinarySplit_eq xs = remdups_adj xs"
  by (induction xs rule: remdups_adj.induct) (simp_all add: TBinarySplit_eq_iff)

lemma vector_eq_iff:
  assumes "\<And>a b. eq a b \<longleftrightarrow> a = b"
  shows "vector_eq eq xs ys \<longleftrightarrow> xs = ys"
  by (induction xs arbitrary: ys; case_tac ys) (simp_all add: assms)

lemma TFeatureTensor_eq_iff: "TFeatureTensor_eq t u \<longleftrightarrow> t = u"
proof -
  have "vector_eq TBinarySplit_eq (Splits t) (Splits u) \<longleftrightarrow> Splits t = Splits u"
    by (rule vector_eq_iff) (rule TBinarySplit_eq_iff)
  moreover have "vector_eq (=) (CatFeatures t) (CatFeatures u) \<longleftrightarrow> CatFeatures t = CatFeatures u"
    by (rule vector_eq_iff) simp
  ultimately show ?thesis
    by (auto simp: TFeatureTensor_eq_def GetSplits_def GetCatFeatures_def)
qed

lemma vector_less_lexord:
  assumes "strict_total_order lt"
  shows "vector_less lt xs ys \<longleftrightarrow> (xs, ys) \<in> lexord {(a, b). lt a b}"
proof (induction xs arbitrary: ys)
  case Nil
  then show ?case by (cases ys) simp_all
next
  case (Cons x xs)
  note D = strict_total_orderD [OF assms]
  show ?case
  proof (cases ys)
    case Nil
    then show ?thesis by simp
  next
    case ys: (Cons y ys')
    show ?thesis
    proof (cases "lt x y")
      case True
      with ys show ?thesis by simp
    next
      case nxy: False
      show ?thesis
      proof (cases "lt y x")
        case True
        with nxy ys D(1) show ?thesis by auto
      next
        case False
        with nxy D(3) have "x = y" by blast
        with nxy False ys Cons.IH show ?thesis by simp
      qed
    qed
  qed
qed

lemma strict_total_order_vector_less:
  assumes "strict_total_order lt"
  shows "strict_total_order (vector_less lt)"
proof -
  note D = strict_total_orderD [OF assms]
  let ?r = "{(a, b). lt a b}"
  have irr: "\<forall>a. (a, a) \<notin> ?r" using D(1) by simp
  have tr: "trans ?r" using D(2) by (auto simp: trans_def)
  have lin: "\<forall>a b. (a, b) \<in> ?r \<or> a = b \<or> (b, a) \<in> ?r" using D(3) by auto
  show ?thesis
    unfolding strict_total_order_def vector_less_lexord [OF assms]
  proof (intro conjI allI impI)
    fix a b c :: "'a list"
    show "(a, a) \<notin> lexord ?r" using irr by (rule lexord_irreflexive)
    show "(a, c) \<in> lexord ?r" if "(a, b) \<in> lexord ?r" "(b, c) \<in> lexord ?r"
      using that tr by (rule lexord_trans)
    show "(a, b) \<in> lexord ?r \<or> a = b \<or> (b, a) \<in> lexord ?r"
      using lin by (rule lexord_linear)
  qed
qed

lemma TFeatureTensor_less_lex:
  "TFeatureTensor_less t u \<longleftrightarrow>
     (vector_less TBinarySplit_less (Splits t) (Splits u) \<or>
      (Splits t = Splits u \<and> vector_less (<) (CatFeatures t) (CatFeatures u)))"
proof -
  note D = strict_total_orderD
    [OF strict_total_order_vector_less [OF strict_total_order_TBinarySplit_less]]
  show ?thesis unfolding TFeatureTensor_less_def using D(1) D(3) D(4) by metis
qed

lemma strict_total_order_TFeatureTensor_less: "strict_total_order TFeatureTensor_less"
proof -
  note S = strict_total_orderD
    [OF strict_total_order_vector_less [OF strict_total_order_TBinarySplit_less]]
  note C = strict_total_orderD
    [OF strict_total_order_vector_less [OF strict_total_order_less [where 'a = "32 word"]]]
  show ?thesis
    unfolding strict_total_order_def
  proof (intro conjI allI impI)
    fix a b c :: TFeatureTensor
    show "\<not> TFeatureTensor_less a a"
      using S(1) C(1) by (simp add: TFeatureTensor_less_lex)
    show "TFeatureTensor_less a c" if "TFeatureTensor_less a b" "TFeatureTensor_less b c"
      using that unfolding TFeatureTensor_less_lex
      by (elim disjE conjE) (auto dest: S(2) C(2))
    have "Splits a = Splits b \<and> CatFeatures a = CatFeatures b \<Longrightarrow> a = b"
      by (rule TFeatureTensor.equality) simp_all
    then show "TFeatureTensor_less a b \<or> a = b \<or> TFeatureTensor_less b a"
      unfolding TFeatureTensor_less_lex using S(3) C(3) by metis
  qed
qed

subsection \<open>What the mutating member functions leave in the two vectors\<close>

lemma SortUniqueSplits_fields:
  "Splits (SortUniqueSplits t) = remdups_adj (Sort TBinarySplit_less (Splits t))"
  "CatFeatures (SortUniqueSplits t) = CatFeatures t"
  by (simp_all add: SortUniqueSplits_def Unique_TBinarySplit_eq)

lemma SortUniqueCatFeatures_fields:
  "CatFeatures (SortUniqueCatFeatures t) = remdups_adj (Sort (<) (CatFeatures t))"
  "Splits (SortUniqueCatFeatures t) = Splits t"
  by (simp_all add: SortUniqueCatFeatures_def Unique_equality)

lemmas SortUnique_fields = SortUniqueSplits_fields SortUniqueCatFeatures_fields

lemma AddBinarySplit_fields:
  "Splits (AddBinarySplit t bin) = remdups_adj (Sort TBinarySplit_less (Splits t @ [bin]))"
  "CatFeatures (AddBinarySplit t bin) = CatFeatures t"
  by (simp_all add: AddBinarySplit_def SortUnique_fields)

lemma AddBinarySplit_list_fields:
  "Splits (AddBinarySplit_list t splits) = remdups_adj (Sort TBinarySplit_less (Splits t @ splits))"
  "CatFeatures (AddBinarySplit_list t splits) = CatFeatures t"
  by (simp_all add: AddBinarySplit_list_def SortUnique_fields push_back_all_append)

lemma AddCatFeature_fields:
  "CatFeatures (AddCatFeature t featureId) = remdups_adj (Sort (<) (CatFeatures t @ [featureId]))"
  "Splits (AddCatFeature t featureId) = Splits t"
  by (simp_all add: AddCatFeature_def SortUnique_fields)

lemma AddCatFeature_list_fields:
  "CatFeatures (AddCatFeature_list t featureIds) = remdups_adj (Sort (<) (CatFeatures t @ featureIds))"
  "Splits (AddCatFeature_list t featureIds) = Splits t"
  by (simp_all add: AddCatFeature_list_def SortUnique_fields push_back_all_append)

lemma AddTensor_fields:
  "Splits (AddTensor t tensor) = remdups_adj (Sort TBinarySplit_less (Splits t @ Splits tensor))"
  "CatFeatures (AddTensor t tensor) = remdups_adj (Sort (<) (CatFeatures t @ CatFeatures tensor))"
  by (simp_all add: AddTensor_def SortUnique_fields push_back_all_append)

lemmas Add_fields = AddBinarySplit_fields AddBinarySplit_list_fields AddCatFeature_fields
  AddCatFeature_list_fields AddTensor_fields

lemmas splits_order = strict_total_order_TBinarySplit_less
lemmas cats_order = strict_total_order_less [where 'a = "32 word"]

lemma canonical_iff:
  "canonical t \<longleftrightarrow> sorted_wrt TBinarySplit_less (Splits t) \<and> sorted_wrt (<) (CatFeatures t)"
  unfolding canonical_def
  using strictly_sorted_iff [OF splits_order, of "Splits t"]
    strictly_sorted_iff [OF cats_order, of "CatFeatures t"]
  by blast

lemma canonical_apply_mutation: "canonical t \<Longrightarrow> canonical (apply_mutation t m)"
  by (cases m)
    (simp_all add: canonical_iff Add_fields canonical_list [OF splits_order]
      canonical_list [OF cats_order])

lemma reachable_canonical: "reachable t \<Longrightarrow> canonical t"
proof (induction rule: reachable.induct)
  case reachable_empty
  show ?case by (simp add: canonical_def TFeatureTensor_empty_def ascending_def)
next
  case (reachable_AddBinarySplit t bin)
  then show ?case using canonical_apply_mutation [of t "CallAddBinarySplit bin"] by simp
next
  case (reachable_AddBinarySplit_list t splits)
  then show ?case using canonical_apply_mutation [of t "CallAddBinarySplit_list splits"] by simp
next
  case (reachable_AddCatFeature t featureId)
  then show ?case using canonical_apply_mutation [of t "CallAddCatFeature featureId"] by simp
next
  case (reachable_AddCatFeature_list t featureIds)
  then show ?case using canonical_apply_mutation [of t "CallAddCatFeature_list featureIds"] by simp
next
  case (reachable_AddTensor t tensor)
  then show ?case using canonical_apply_mutation [of t "CallAddTensor tensor"] by simp
qed

lemma Splits_apply_mutation:
  assumes "sorted_wrt TBinarySplit_less (Splits t)"
  shows "Splits (apply_mutation t m) =
    remdups_adj (Sort TBinarySplit_less (Splits t @ added_splits m))"
  using canonical_list_fixed [OF splits_order assms]
  by (cases m) (simp_all add: Add_fields)

lemma CatFeatures_apply_mutation:
  assumes "sorted_wrt (<) (CatFeatures t)"
  shows "CatFeatures (apply_mutation t m) =
    remdups_adj (Sort (<) (CatFeatures t @ added_cat_features m))"
  using canonical_list_fixed [OF cats_order assms]
  by (cases m) (simp_all add: Add_fields)

lemma Splits_apply_mutations:
  "sorted_wrt TBinarySplit_less (Splits t) \<Longrightarrow>
   Splits (apply_mutations t ms) =
     remdups_adj (Sort TBinarySplit_less (Splits t @ concat (map added_splits ms)))"
  unfolding apply_mutations_def
proof (induction ms arbitrary: t)
  case Nil
  then show ?case by (simp add: canonical_list_fixed [OF splits_order])
next
  case (Cons m ms)
  let ?t' = "apply_mutation t m"
  have step: "Splits ?t' = remdups_adj (Sort TBinarySplit_less (Splits t @ added_splits m))"
    by (rule Splits_apply_mutation [OF Cons.prems])
  then have "sorted_wrt TBinarySplit_less (Splits ?t')"
    by (simp add: canonical_list [OF splits_order])
  then have "Splits (foldl apply_mutation ?t' ms) =
      remdups_adj (Sort TBinarySplit_less (Splits ?t' @ concat (map added_splits ms)))"
    by (rule Cons.IH)
  also have "\<dots> = remdups_adj (Sort TBinarySplit_less
      (Splits t @ concat (map added_splits (m # ms))))"
    by (rule canonical_list_cong [OF splits_order]) (simp add: step set_Sort Un_assoc)
  finally show ?case by simp
qed

lemma CatFeatures_apply_mutations:
  "sorted_wrt (<) (CatFeatures t) \<Longrightarrow>
   CatFeatures (apply_mutations t ms) =
     remdups_adj (Sort (<) (CatFeatures t @ concat (map added_cat_features ms)))"
  unfolding apply_mutations_def
proof (induction ms arbitrary: t)
  case Nil
  then show ?case by (simp add: canonical_list_fixed [OF cats_order])
next
  case (Cons m ms)
  let ?t' = "apply_mutation t m"
  have step: "CatFeatures ?t' = remdups_adj (Sort (<) (CatFeatures t @ added_cat_features m))"
    by (rule CatFeatures_apply_mutation [OF Cons.prems])
  then have "sorted_wrt (<) (CatFeatures ?t')"
    by (simp add: canonical_list [OF cats_order])
  then have "CatFeatures (foldl apply_mutation ?t' ms) =
      remdups_adj (Sort (<) (CatFeatures ?t' @ concat (map added_cat_features ms)))"
    by (rule Cons.IH)
  also have "\<dots> = remdups_adj (Sort (<)
      (CatFeatures t @ concat (map added_cat_features (m # ms))))"
    by (rule canonical_list_cong [OF cats_order]) (simp add: step set_Sort Un_assoc)
  finally show ?case by simp
qed

lemma apply_mutations_cong:
  assumes "canonical t"
    and "set (concat (map added_splits ms')) = set (concat (map added_splits ms))"
    and "set (concat (map added_cat_features ms')) = set (concat (map added_cat_features ms))"
  shows "apply_mutations t ms' = apply_mutations t ms"
proof (rule TFeatureTensor.equality)
  from assms(1) have s: "sorted_wrt TBinarySplit_less (Splits t)"
    and c: "sorted_wrt (<) (CatFeatures t)" by (simp_all add: canonical_iff)
  show "Splits (apply_mutations t ms') = Splits (apply_mutations t ms)"
    unfolding Splits_apply_mutations [OF s]
    by (rule canonical_list_cong [OF splits_order]) (use assms(2) in simp)
  show "CatFeatures (apply_mutations t ms') = CatFeatures (apply_mutations t ms)"
    unfolding CatFeatures_apply_mutations [OF c]
    by (rule canonical_list_cong [OF cats_order]) (use assms(3) in simp)
qed simp

lemma AddTensor_commute: "AddTensor a b = AddTensor b a"
  by (rule TFeatureTensor.equality)
    (auto simp: Add_fields intro!: canonical_list_cong [OF splits_order]
      canonical_list_cong [OF cats_order])

lemma AddTensor_assoc: "AddTensor (AddTensor a b) c = AddTensor a (AddTensor b c)"
  by (rule TFeatureTensor.equality)
    (auto simp: Add_fields set_Sort intro!: canonical_list_cong [OF splits_order]
      canonical_list_cong [OF cats_order])

lemma AddTensor_empty:
  assumes "canonical t"
  shows "AddTensor t TFeatureTensor_empty = t" and "AddTensor TFeatureTensor_empty t = t"
proof -
  from assms have s: "sorted_wrt TBinarySplit_less (Splits t)"
    and c: "sorted_wrt (<) (CatFeatures t)" by (simp_all add: canonical_iff)
  show "AddTensor t TFeatureTensor_empty = t"
    by (rule TFeatureTensor.equality)
      (simp_all add: Add_fields TFeatureTensor_empty_def canonical_list_fixed [OF splits_order s]
        canonical_list_fixed [OF cats_order c])
  show "AddTensor TFeatureTensor_empty t = t"
    by (rule TFeatureTensor.equality)
      (simp_all add: Add_fields TFeatureTensor_empty_def canonical_list_fixed [OF splits_order s]
        canonical_list_fixed [OF cats_order c])
qed

section \<open>The claims\<close>

lemmas eval_defs =
  split_1_2_greater_def split_1_2_bin_def split_0_5_bin_def TBinarySplit_init_def
  TFeatureTensor_empty_def apply_mutations_def
  AddBinarySplit_def AddBinarySplit_list_def AddCatFeature_def AddCatFeature_list_def
  AddTensor_def SortUniqueSplits_def SortUniqueCatFeatures_def
  TBinarySplit_less_def TBinarySplit_eq_def EBinSplitType_less_def
  TFeatureTensor_eq_def GetSplits_def GetCatFeatures_def
  canonical_def ascending_def Size_def IsSimple_def IsEmpty_def GetComplexity_def

text \<open>
  C1. The tensor that a sequence of additions produces depends only on the elements
  added. Started on a canonical tensor, two call sequences that are permutations of
  each other give tensors equal under \<^verbatim>\<open>operator==\<close>; so do two call sequences that
  hand over the same set of splits and the same set of categorical features in any
  grouping. \<^verbatim>\<open>AddTensor\<close> is commutative and associative up to \<^verbatim>\<open>operator==\<close>, and
  merging with the empty tensor, on either side, gives back a canonical tensor.
\<close>

theorem order_independence_and_merge:
  "(canonical t \<and> mset ms' = mset ms \<longrightarrow>
      TFeatureTensor_eq (apply_mutations t ms') (apply_mutations t ms)) \<and>
   (canonical t \<and>
    set (concat (map added_splits ms'')) = set (concat (map added_splits ms)) \<and>
    set (concat (map added_cat_features ms'')) = set (concat (map added_cat_features ms)) \<longrightarrow>
      TFeatureTensor_eq (apply_mutations t ms'') (apply_mutations t ms)) \<and>
   TFeatureTensor_eq (AddTensor a b) (AddTensor b a) \<and>
   TFeatureTensor_eq (AddTensor (AddTensor a b) c) (AddTensor a (AddTensor b c)) \<and>
   (canonical t \<longrightarrow>
      TFeatureTensor_eq (AddTensor t TFeatureTensor_empty) t \<and>
      TFeatureTensor_eq (AddTensor TFeatureTensor_empty t) t)"
proof (intro conjI impI)
  assume h: "canonical t \<and> mset ms' = mset ms"
  then have "set ms' = set ms" by (metis set_mset_mset)
  then have "set (concat (map added_splits ms')) = set (concat (map added_splits ms))"
    and "set (concat (map added_cat_features ms')) = set (concat (map added_cat_features ms))"
    by simp_all
  with h have "apply_mutations t ms' = apply_mutations t ms"
    by (intro apply_mutations_cong) simp_all
  then show "TFeatureTensor_eq (apply_mutations t ms') (apply_mutations t ms)"
    by (simp only: TFeatureTensor_eq_iff)
next
  assume "canonical t \<and>
    set (concat (map added_splits ms'')) = set (concat (map added_splits ms)) \<and>
    set (concat (map added_cat_features ms'')) = set (concat (map added_cat_features ms))"
  then have "apply_mutations t ms'' = apply_mutations t ms"
    by (intro apply_mutations_cong) simp_all
  then show "TFeatureTensor_eq (apply_mutations t ms'') (apply_mutations t ms)"
    by (simp only: TFeatureTensor_eq_iff)
next
  show "TFeatureTensor_eq (AddTensor a b) (AddTensor b a)"
    unfolding TFeatureTensor_eq_iff by (rule AddTensor_commute)
  show "TFeatureTensor_eq (AddTensor (AddTensor a b) c) (AddTensor a (AddTensor b c))"
    unfolding TFeatureTensor_eq_iff by (rule AddTensor_assoc)
next
  assume "canonical t"
  then show "TFeatureTensor_eq (AddTensor t TFeatureTensor_empty) t"
    and "TFeatureTensor_eq (AddTensor TFeatureTensor_empty t) t"
    unfolding TFeatureTensor_eq_iff by (rule AddTensor_empty)+
qed

theorem order_independence_and_merge_witness:
  "canonical TFeatureTensor_empty \<and>
   mset [CallAddCatFeature 7, CallAddBinarySplit split_0_5_bin, CallAddBinarySplit split_1_2_greater]
     = mset [CallAddBinarySplit split_1_2_greater, CallAddCatFeature 7, CallAddBinarySplit split_0_5_bin] \<and>
   set (concat (map added_splits
     [CallAddCatFeature_list [7, 7], CallAddBinarySplit_list [split_1_2_greater, split_0_5_bin, split_1_2_greater]]))
     = set (concat (map added_splits
     [CallAddBinarySplit split_1_2_greater, CallAddCatFeature 7, CallAddBinarySplit split_0_5_bin])) \<and>
   set (concat (map added_cat_features
     [CallAddCatFeature_list [7, 7], CallAddBinarySplit_list [split_1_2_greater, split_0_5_bin, split_1_2_greater]]))
     = set (concat (map added_cat_features
     [CallAddBinarySplit split_1_2_greater, CallAddCatFeature 7, CallAddBinarySplit split_0_5_bin])) \<and>
   TFeatureTensor_eq
     (apply_mutations TFeatureTensor_empty
       [CallAddCatFeature 7, CallAddBinarySplit split_0_5_bin, CallAddBinarySplit split_1_2_greater])
     (apply_mutations TFeatureTensor_empty
       [CallAddBinarySplit split_1_2_greater, CallAddCatFeature 7, CallAddBinarySplit split_0_5_bin]) \<and>
   TFeatureTensor_eq
     (apply_mutations TFeatureTensor_empty
       [CallAddCatFeature_list [7, 7], CallAddBinarySplit_list [split_1_2_greater, split_0_5_bin, split_1_2_greater]])
     (apply_mutations TFeatureTensor_empty
       [CallAddBinarySplit split_1_2_greater, CallAddCatFeature 7, CallAddBinarySplit split_0_5_bin]) \<and>
   TFeatureTensor_eq (AddTensor TFeatureTensor_empty TFeatureTensor_empty) TFeatureTensor_empty \<and>
   Splits (apply_mutations TFeatureTensor_empty
       [CallAddCatFeature 7, CallAddBinarySplit split_1_2_greater, CallAddBinarySplit split_0_5_bin])
     = [split_0_5_bin, split_1_2_greater]"
proof -
  have c: "canonical TFeatureTensor_empty"
    by (simp add: eval_defs)
  have p: "mset [CallAddCatFeature 7, CallAddBinarySplit split_0_5_bin, CallAddBinarySplit split_1_2_greater]
     = mset [CallAddBinarySplit split_1_2_greater, CallAddCatFeature 7, CallAddBinarySplit split_0_5_bin]"
    by simp
  have s: "set (concat (map added_splits
     [CallAddCatFeature_list [7, 7], CallAddBinarySplit_list [split_1_2_greater, split_0_5_bin, split_1_2_greater]]))
     = set (concat (map added_splits
     [CallAddBinarySplit split_1_2_greater, CallAddCatFeature 7, CallAddBinarySplit split_0_5_bin]))"
    by auto
  have f: "set (concat (map added_cat_features
     [CallAddCatFeature_list [7, 7], CallAddBinarySplit_list [split_1_2_greater, split_0_5_bin, split_1_2_greater]]))
     = set (concat (map added_cat_features
     [CallAddBinarySplit split_1_2_greater, CallAddCatFeature 7, CallAddBinarySplit split_0_5_bin]))"
    by simp
  have v: "Splits (apply_mutations TFeatureTensor_empty
       [CallAddCatFeature 7, CallAddBinarySplit split_1_2_greater, CallAddBinarySplit split_0_5_bin])
     = [split_0_5_bin, split_1_2_greater]"
    by (simp add: eval_defs)
  show ?thesis
    using c p s f v
      order_independence_and_merge [of TFeatureTensor_empty
        "[CallAddCatFeature 7, CallAddBinarySplit split_0_5_bin, CallAddBinarySplit split_1_2_greater]"
        "[CallAddBinarySplit split_1_2_greater, CallAddCatFeature 7, CallAddBinarySplit split_0_5_bin]"
        "[CallAddCatFeature_list [7, 7], CallAddBinarySplit_list [split_1_2_greater, split_0_5_bin, split_1_2_greater]]"]
    by blast
qed

text \<open>
  C2. The canonical form is an invariant: the empty tensor is canonical, every mutating
  member function (\<^verbatim>\<open>AddBinarySplit\<close> and \<^verbatim>\<open>AddCatFeature\<close> in both forms,
  \<^verbatim>\<open>AddTensor\<close>) takes a canonical tensor to a canonical one, and so every tensor
  reachable from the empty one has \<^verbatim>\<open>Splits\<close> ascending in the order of
  \<^verbatim>\<open>TBinarySplit\<close> without duplicates and \<^verbatim>\<open>CatFeatures\<close> ascending without
  duplicates.
\<close>

theorem canonical_form_invariant:
  "canonical TFeatureTensor_empty \<and>
   (canonical t \<longrightarrow>
      canonical (AddBinarySplit t bin) \<and> canonical (AddBinarySplit_list t splits) \<and>
      canonical (AddCatFeature t featureId) \<and> canonical (AddCatFeature_list t featureIds) \<and>
      canonical (AddTensor t tensor)) \<and>
   (reachable r \<longrightarrow>
      ascending TBinarySplit_less (Splits r) \<and> distinct (Splits r) \<and>
      ascending (<) (CatFeatures r) \<and> distinct (CatFeatures r))"
proof (intro conjI impI)
  show "canonical TFeatureTensor_empty"
    by (rule reachable_canonical) (rule reachable_empty)
next
  assume c: "canonical t"
  show "canonical (AddBinarySplit t bin)"
    using canonical_apply_mutation [OF c, of "CallAddBinarySplit bin"] by simp
  show "canonical (AddBinarySplit_list t splits)"
    using canonical_apply_mutation [OF c, of "CallAddBinarySplit_list splits"] by simp
  show "canonical (AddCatFeature t featureId)"
    using canonical_apply_mutation [OF c, of "CallAddCatFeature featureId"] by simp
  show "canonical (AddCatFeature_list t featureIds)"
    using canonical_apply_mutation [OF c, of "CallAddCatFeature_list featureIds"] by simp
  show "canonical (AddTensor t tensor)"
    using canonical_apply_mutation [OF c, of "CallAddTensor tensor"] by simp
next
  assume "reachable r"
  then have "canonical r" by (rule reachable_canonical)
  then show "ascending TBinarySplit_less (Splits r)" and "distinct (Splits r)"
    and "ascending (<) (CatFeatures r)" and "distinct (CatFeatures r)"
    by (simp_all add: canonical_def)
qed

theorem canonical_form_invariant_witness:
  "canonical (AddCatFeature TFeatureTensor_empty 7) \<and>
   reachable (AddBinarySplit_list (AddCatFeature_list TFeatureTensor_empty [9, 7, 9])
     [split_1_2_greater, split_0_5_bin, split_1_2_greater]) \<and>
   canonical (AddBinarySplit (AddCatFeature TFeatureTensor_empty 7) split_1_2_greater) \<and>
   canonical (AddTensor (AddCatFeature TFeatureTensor_empty 7)
     \<lparr>Splits = [split_1_2_greater, split_0_5_bin], CatFeatures = [7, 3, 7]\<rparr>) \<and>
   distinct (Splits (AddBinarySplit_list (AddCatFeature_list TFeatureTensor_empty [9, 7, 9])
     [split_1_2_greater, split_0_5_bin, split_1_2_greater])) \<and>
   Splits (AddBinarySplit_list (AddCatFeature_list TFeatureTensor_empty [9, 7, 9])
     [split_1_2_greater, split_0_5_bin, split_1_2_greater]) = [split_0_5_bin, split_1_2_greater] \<and>
   CatFeatures (AddBinarySplit_list (AddCatFeature_list TFeatureTensor_empty [9, 7, 9])
     [split_1_2_greater, split_0_5_bin, split_1_2_greater]) = [7, 9]"
proof -
  have c: "canonical (AddCatFeature TFeatureTensor_empty 7)"
    by (simp add: eval_defs)
  have r: "reachable (AddBinarySplit_list (AddCatFeature_list TFeatureTensor_empty [9, 7, 9])
     [split_1_2_greater, split_0_5_bin, split_1_2_greater])"
    by (intro reachable.intros)
  have v: "Splits (AddBinarySplit_list (AddCatFeature_list TFeatureTensor_empty [9, 7, 9])
     [split_1_2_greater, split_0_5_bin, split_1_2_greater]) = [split_0_5_bin, split_1_2_greater]"
    "CatFeatures (AddBinarySplit_list (AddCatFeature_list TFeatureTensor_empty [9, 7, 9])
     [split_1_2_greater, split_0_5_bin, split_1_2_greater]) = [7, 9]"
    by (simp_all add: eval_defs)
  show ?thesis
    using c r v
      canonical_form_invariant [of "AddCatFeature TFeatureTensor_empty 7" split_1_2_greater
        "[]" 0 "[]" "\<lparr>Splits = [split_1_2_greater, split_0_5_bin], CatFeatures = [7, 3, 7]\<rparr>"
        "AddBinarySplit_list (AddCatFeature_list TFeatureTensor_empty [9, 7, 9])
          [split_1_2_greater, split_0_5_bin, split_1_2_greater]"]
    by blast
qed

lemma AddBinarySplit_twice: "AddBinarySplit (AddBinarySplit t s) s = AddBinarySplit t s"
proof (rule TFeatureTensor.equality)
  have "remdups_adj (Sort TBinarySplit_less (Splits (AddBinarySplit t s) @ [s]))
      = remdups_adj (Sort TBinarySplit_less (Splits t @ [s]))"
    by (rule canonical_list_cong [OF splits_order]) (auto simp: AddBinarySplit_fields set_Sort)
  then show "Splits (AddBinarySplit (AddBinarySplit t s) s) = Splits (AddBinarySplit t s)"
    by (simp add: AddBinarySplit_fields)
qed (simp_all add: AddBinarySplit_fields)

text \<open>
  C3. Adding a split a second time changes nothing: the tensor after the second
  \<^verbatim>\<open>AddBinarySplit\<close> equals the tensor after the first under \<^verbatim>\<open>operator==\<close>, with the
  same \<^verbatim>\<open>Size\<close> and the same \<^verbatim>\<open>GetHash\<close>. Adding the split (1, 2, TakeGreater) to the
  empty tensor twice and then the categorical feature 7 gives Splits =
  [(1, 2, TakeGreater)], CatFeatures = [7], Size 2, IsSimple false, GetComplexity 2.
\<close>

theorem idempotent_addition:
  "TFeatureTensor_eq (AddBinarySplit (AddBinarySplit t s) s) (AddBinarySplit t s) \<and>
   Size (AddBinarySplit (AddBinarySplit t s) s) = Size (AddBinarySplit t s) \<and>
   TFeatureTensor_GetHash E (AddBinarySplit (AddBinarySplit t s) s)
     = TFeatureTensor_GetHash E (AddBinarySplit t s) \<and>
   Splits (AddCatFeature (AddBinarySplit (AddBinarySplit TFeatureTensor_empty
       (TBinarySplit_init 1 2 TakeGreater)) (TBinarySplit_init 1 2 TakeGreater)) 7)
     = [TBinarySplit_init 1 2 TakeGreater] \<and>
   CatFeatures (AddCatFeature (AddBinarySplit (AddBinarySplit TFeatureTensor_empty
       (TBinarySplit_init 1 2 TakeGreater)) (TBinarySplit_init 1 2 TakeGreater)) 7) = [7] \<and>
   Size (AddCatFeature (AddBinarySplit (AddBinarySplit TFeatureTensor_empty
       (TBinarySplit_init 1 2 TakeGreater)) (TBinarySplit_init 1 2 TakeGreater)) 7) = 2 \<and>
   \<not> IsSimple (AddCatFeature (AddBinarySplit (AddBinarySplit TFeatureTensor_empty
       (TBinarySplit_init 1 2 TakeGreater)) (TBinarySplit_init 1 2 TakeGreater)) 7) \<and>
   GetComplexity (AddCatFeature (AddBinarySplit (AddBinarySplit TFeatureTensor_empty
       (TBinarySplit_init 1 2 TakeGreater)) (TBinarySplit_init 1 2 TakeGreater)) 7) = 2"
proof -
  have scenario: "AddCatFeature (AddBinarySplit (AddBinarySplit TFeatureTensor_empty
       (TBinarySplit_init 1 2 TakeGreater)) (TBinarySplit_init 1 2 TakeGreater)) 7
     = \<lparr>Splits = [TBinarySplit_init 1 2 TakeGreater], CatFeatures = [7]\<rparr>"
    by (simp add: TFeatureTensor_empty_def AddBinarySplit_def AddCatFeature_def
        SortUniqueSplits_def SortUniqueCatFeatures_def TBinarySplit_eq_def
        TBinarySplit_less_def EBinSplitType_less_def TBinarySplit_init_def)
  have again: "TFeatureTensor_eq (AddBinarySplit (AddBinarySplit t s) s) (AddBinarySplit t s)"
    "Size (AddBinarySplit (AddBinarySplit t s) s) = Size (AddBinarySplit t s)"
    "TFeatureTensor_GetHash E (AddBinarySplit (AddBinarySplit t s) s)
       = TFeatureTensor_GetHash E (AddBinarySplit t s)"
    unfolding AddBinarySplit_twice by (simp_all add: TFeatureTensor_eq_iff)
  show ?thesis
    unfolding scenario using again
    by (simp add: Size_def IsSimple_def GetComplexity_def)
qed

theorem idempotent_addition_witness:
  "TFeatureTensor_eq
     (AddBinarySplit (AddBinarySplit (AddBinarySplit TFeatureTensor_empty split_0_5_bin)
        split_1_2_bin) split_1_2_bin)
     (AddBinarySplit (AddBinarySplit TFeatureTensor_empty split_0_5_bin) split_1_2_bin) \<and>
   Size (AddBinarySplit (AddBinarySplit (AddBinarySplit TFeatureTensor_empty split_0_5_bin)
        split_1_2_bin) split_1_2_bin) = 2 \<and>
   TFeatureTensor_GetHash example_externals
     (AddBinarySplit (AddBinarySplit (AddBinarySplit TFeatureTensor_empty split_0_5_bin)
        split_1_2_bin) split_1_2_bin) = 2"
proof -
  have v: "AddBinarySplit (AddBinarySplit TFeatureTensor_empty split_0_5_bin) split_1_2_bin
      = \<lparr>Splits = [split_0_5_bin, split_1_2_bin], CatFeatures = []\<rparr>"
    by (simp add: eval_defs)
  have "Size \<lparr>Splits = [split_0_5_bin, split_1_2_bin], CatFeatures = []\<rparr> = 2"
    and "TFeatureTensor_GetHash example_externals
      \<lparr>Splits = [split_0_5_bin, split_1_2_bin], CatFeatures = []\<rparr> = 2"
    by (simp_all add: Size_def TFeatureTensor_GetHash_def example_externals_def)
  then show ?thesis
    using idempotent_addition [of "AddBinarySplit TFeatureTensor_empty split_0_5_bin"
        split_1_2_bin example_externals]
    unfolding v by simp
qed



text \<open>
  C5. The two orders are lexicographic and agree with equality. \<^verbatim>\<open>operator<\<close> of
  \<^verbatim>\<open>TBinarySplit\<close> is the lexicographic order on (FeatureId, BinIdx, SplitType);
  \<^verbatim>\<open>operator<\<close> of \<^verbatim>\<open>TFeatureTensor\<close> is the lexicographic order on (Splits,
  CatFeatures), where each vector is itself compared lexicographically. For both types,
  two values are equal under \<^verbatim>\<open>operator==\<close> exactly when neither is less than the
  other, no two values are less than each other, and the order is transitive.
\<close>

theorem order_consistency:
  "(TBinarySplit_less a b \<longleftrightarrow>
      FeatureId a < FeatureId b \<or>
      (FeatureId a = FeatureId b \<and>
       (BinIdx a < BinIdx b \<or>
        (BinIdx a = BinIdx b \<and>
         EBinSplitType_value (SplitType a) < EBinSplitType_value (SplitType b))))) \<and>
   (TFeatureTensor_less t u \<longleftrightarrow>
      vector_less TBinarySplit_less (Splits t) (Splits u) \<or>
      (vector_eq TBinarySplit_eq (Splits t) (Splits u) \<and>
       vector_less (<) (CatFeatures t) (CatFeatures u))) \<and>
   (vector_less TBinarySplit_less (Splits t) (Splits u) \<longleftrightarrow>
      (Splits t, Splits u) \<in> lexord {(x, y). TBinarySplit_less x y}) \<and>
   (vector_less (<) (CatFeatures t) (CatFeatures u) \<longleftrightarrow>
      (CatFeatures t, CatFeatures u) \<in> lexord {(x, y). x < y}) \<and>
   (TBinarySplit_eq a b \<longleftrightarrow> \<not> TBinarySplit_less a b \<and> \<not> TBinarySplit_less b a) \<and>
   \<not> (TBinarySplit_less a b \<and> TBinarySplit_less b a) \<and>
   (TBinarySplit_less a b \<and> TBinarySplit_less b c \<longrightarrow> TBinarySplit_less a c) \<and>
   (TFeatureTensor_eq t u \<longleftrightarrow> \<not> TFeatureTensor_less t u \<and> \<not> TFeatureTensor_less u t) \<and>
   \<not> (TFeatureTensor_less t u \<and> TFeatureTensor_less u t) \<and>
   (TFeatureTensor_less t u \<and> TFeatureTensor_less u v \<longrightarrow> TFeatureTensor_less t v)"
proof -
  note S = strict_total_orderD [OF splits_order]
  note T = strict_total_orderD [OF strict_total_order_TFeatureTensor_less]
  have veq: "vector_eq TBinarySplit_eq (Splits t) (Splits u) \<longleftrightarrow> Splits t = Splits u"
    by (rule vector_eq_iff) (rule TBinarySplit_eq_iff)
  have lex: "TBinarySplit_less a b \<longleftrightarrow>
      FeatureId a < FeatureId b \<or>
      (FeatureId a = FeatureId b \<and>
       (BinIdx a < BinIdx b \<or>
        (BinIdx a = BinIdx b \<and>
         EBinSplitType_value (SplitType a) < EBinSplitType_value (SplitType b))))"
    by (rule TBinarySplit_less_lex)
  have tlex: "TFeatureTensor_less t u \<longleftrightarrow>
      vector_less TBinarySplit_less (Splits t) (Splits u) \<or>
      (vector_eq TBinarySplit_eq (Splits t) (Splits u) \<and>
       vector_less (<) (CatFeatures t) (CatFeatures u))"
    unfolding veq by (rule TFeatureTensor_less_lex)
  have v1: "vector_less TBinarySplit_less (Splits t) (Splits u) \<longleftrightarrow>
      (Splits t, Splits u) \<in> lexord {(x, y). TBinarySplit_less x y}"
    by (rule vector_less_lexord [OF splits_order])
  have v2: "vector_less (<) (CatFeatures t) (CatFeatures u) \<longleftrightarrow>
      (CatFeatures t, CatFeatures u) \<in> lexord {(x, y). x < y}"
    by (rule vector_less_lexord [OF cats_order])
  have s1: "TBinarySplit_eq a b \<longleftrightarrow> \<not> TBinarySplit_less a b \<and> \<not> TBinarySplit_less b a"
    unfolding TBinarySplit_eq_iff using S(1) S(3) by blast
  have s2: "\<not> (TBinarySplit_less a b \<and> TBinarySplit_less b a)"
    using S(4) by blast
  have s3: "TBinarySplit_less a b \<and> TBinarySplit_less b c \<longrightarrow> TBinarySplit_less a c"
    using S(2) by blast
  have t1: "TFeatureTensor_eq t u \<longleftrightarrow> \<not> TFeatureTensor_less t u \<and> \<not> TFeatureTensor_less u t"
    unfolding TFeatureTensor_eq_iff using T(1) T(3) by blast
  have t2: "\<not> (TFeatureTensor_less t u \<and> TFeatureTensor_less u t)"
    using T(4) by blast
  have t3: "TFeatureTensor_less t u \<and> TFeatureTensor_less u v \<longrightarrow> TFeatureTensor_less t v"
    using T(2) by blast
  from lex tlex v1 v2 s1 s2 s3 t1 t2 t3 show ?thesis by (intro conjI)
qed

theorem order_consistency_witness:
  "TBinarySplit_less split_0_5_bin split_1_2_bin \<and>
   TBinarySplit_less split_1_2_bin split_1_2_greater \<and>
   TBinarySplit_less split_0_5_bin split_1_2_greater \<and>
   \<not> TBinarySplit_less split_1_2_bin split_0_5_bin \<and>
   \<not> TBinarySplit_eq split_0_5_bin split_1_2_bin \<and>
   TFeatureTensor_less (AddBinarySplit TFeatureTensor_empty split_0_5_bin)
     (AddBinarySplit TFeatureTensor_empty split_1_2_bin) \<and>
   TFeatureTensor_less (AddBinarySplit TFeatureTensor_empty split_1_2_bin)
     (AddCatFeature (AddBinarySplit TFeatureTensor_empty split_1_2_bin) 7) \<and>
   TFeatureTensor_less (AddBinarySplit TFeatureTensor_empty split_0_5_bin)
     (AddCatFeature (AddBinarySplit TFeatureTensor_empty split_1_2_bin) 7) \<and>
   \<not> TFeatureTensor_less (AddBinarySplit TFeatureTensor_empty split_1_2_bin)
     (AddBinarySplit TFeatureTensor_empty split_0_5_bin) \<and>
   \<not> TFeatureTensor_eq (AddBinarySplit TFeatureTensor_empty split_0_5_bin)
     (AddBinarySplit TFeatureTensor_empty split_1_2_bin)"
proof -
  have s: "TBinarySplit_less split_0_5_bin split_1_2_bin"
    "TBinarySplit_less split_1_2_bin split_1_2_greater"
    by (simp_all add: eval_defs)
  have t: "TFeatureTensor_less (AddBinarySplit TFeatureTensor_empty split_0_5_bin)
     (AddBinarySplit TFeatureTensor_empty split_1_2_bin)"
    "TFeatureTensor_less (AddBinarySplit TFeatureTensor_empty split_1_2_bin)
     (AddCatFeature (AddBinarySplit TFeatureTensor_empty split_1_2_bin) 7)"
    by (simp_all add: eval_defs TFeatureTensor_less_def)
  show ?thesis
    using s t
      order_consistency [of split_0_5_bin split_1_2_bin
        "AddBinarySplit TFeatureTensor_empty split_0_5_bin"
        "AddBinarySplit TFeatureTensor_empty split_1_2_bin"
        split_1_2_greater
        "AddCatFeature (AddBinarySplit TFeatureTensor_empty split_1_2_bin) 7"]
    by blast
qed

text \<open>
  C6. \<^verbatim>\<open>IsSubset\<close> holds exactly when every split and every categorical feature of the
  receiver also appears in the argument, the two kinds checked separately. It is
  reflexive and transitive, and a tensor is a subset of the result of merging any
  tensor into it with \<^verbatim>\<open>AddTensor\<close>.
\<close>

theorem subset_semantics:
  "(IsSubset t u \<longleftrightarrow>
      set (Splits t) \<subseteq> set (Splits u) \<and> set (CatFeatures t) \<subseteq> set (CatFeatures u)) \<and>
   IsSubset t t \<and>
   (IsSubset t u \<and> IsSubset u v \<longrightarrow> IsSubset t v) \<and>
   IsSubset t (AddTensor t u)"
proof -
  have sub: "IsSubset x y \<longleftrightarrow>
      set (Splits x) \<subseteq> set (Splits y) \<and> set (CatFeatures x) \<subseteq> set (CatFeatures y)" for x y
    by (auto simp: IsSubset_def IsSubset_vector_def list_all_iff)
  show ?thesis
    unfolding sub by (auto simp: AddTensor_fields set_Sort)
qed

theorem subset_semantics_witness:
  "IsSubset (AddCatFeature TFeatureTensor_empty 7)
     (AddBinarySplit (AddCatFeature TFeatureTensor_empty 7) split_1_2_bin) \<and>
   IsSubset (AddBinarySplit (AddCatFeature TFeatureTensor_empty 7) split_1_2_bin)
     (AddCatFeature (AddBinarySplit (AddCatFeature TFeatureTensor_empty 7) split_1_2_bin) 3) \<and>
   IsSubset (AddCatFeature TFeatureTensor_empty 7)
     (AddCatFeature (AddBinarySplit (AddCatFeature TFeatureTensor_empty 7) split_1_2_bin) 3) \<and>
   IsSubset (AddCatFeature TFeatureTensor_empty 7)
     (AddTensor (AddCatFeature TFeatureTensor_empty 7)
        (AddBinarySplit (AddCatFeature TFeatureTensor_empty 7) split_1_2_bin)) \<and>
   \<not> IsSubset (AddBinarySplit (AddCatFeature TFeatureTensor_empty 7) split_1_2_bin)
     (AddCatFeature TFeatureTensor_empty 7)"
proof -
  have h: "IsSubset (AddCatFeature TFeatureTensor_empty 7)
     (AddBinarySplit (AddCatFeature TFeatureTensor_empty 7) split_1_2_bin)"
    "IsSubset (AddBinarySplit (AddCatFeature TFeatureTensor_empty 7) split_1_2_bin)
     (AddCatFeature (AddBinarySplit (AddCatFeature TFeatureTensor_empty 7) split_1_2_bin) 3)"
    "\<not> IsSubset (AddBinarySplit (AddCatFeature TFeatureTensor_empty 7) split_1_2_bin)
     (AddCatFeature TFeatureTensor_empty 7)"
    by (simp_all add: eval_defs IsSubset_def IsSubset_vector_def)
  show ?thesis
    using h
      subset_semantics [of "AddCatFeature TFeatureTensor_empty 7"
        "AddBinarySplit (AddCatFeature TFeatureTensor_empty 7) split_1_2_bin"
        "AddCatFeature (AddBinarySplit (AddCatFeature TFeatureTensor_empty 7) split_1_2_bin) 3"]
    by blast
qed

text \<open>
  C7. \<^verbatim>\<open>GetComplexity\<close> is the number of categorical features plus the smaller of the
  number of splits and 1; on a canonical tensor these are the numbers of distinct
  categorical features and of distinct splits. A tensor with no split and 3 categorical
  features has complexity 3, one with 5 splits and no categorical feature has
  complexity 1, one with 2 splits and 2 categorical features has complexity 3.
\<close>

theorem complexity_formula:
  "GetComplexity t = length (CatFeatures t) + min (length (Splits t)) 1 \<and>
   (canonical t \<longrightarrow>
      GetComplexity t = card (set (CatFeatures t)) + min (card (set (Splits t))) 1) \<and>
   (length (Splits t1) = 0 \<and> length (CatFeatures t1) = 3 \<longrightarrow> GetComplexity t1 = 3) \<and>
   (length (Splits t2) = 5 \<and> length (CatFeatures t2) = 0 \<longrightarrow> GetComplexity t2 = 1) \<and>
   (length (Splits t3) = 2 \<and> length (CatFeatures t3) = 2 \<longrightarrow> GetComplexity t3 = 3)"
  by (simp add: GetComplexity_def canonical_def distinct_card)

theorem complexity_formula_witness:
  "canonical (AddCatFeature (AddBinarySplit TFeatureTensor_empty split_1_2_bin) 7) \<and>
   GetComplexity (AddCatFeature (AddBinarySplit TFeatureTensor_empty split_1_2_bin) 7) = 2 \<and>
   length (Splits (AddCatFeature_list TFeatureTensor_empty [3, 1, 2])) = 0 \<and>
   length (CatFeatures (AddCatFeature_list TFeatureTensor_empty [3, 1, 2])) = 3 \<and>
   GetComplexity (AddCatFeature_list TFeatureTensor_empty [3, 1, 2]) = 3 \<and>
   length (Splits (AddBinarySplit_list TFeatureTensor_empty
     (map (\<lambda>k. TBinarySplit_init 4 k TakeGreater) [5, 4, 3, 2, 1]))) = 5 \<and>
   length (CatFeatures (AddBinarySplit_list TFeatureTensor_empty
     (map (\<lambda>k. TBinarySplit_init 4 k TakeGreater) [5, 4, 3, 2, 1]))) = 0 \<and>
   GetComplexity (AddBinarySplit_list TFeatureTensor_empty
     (map (\<lambda>k. TBinarySplit_init 4 k TakeGreater) [5, 4, 3, 2, 1])) = 1 \<and>
   length (Splits (AddTensor (AddBinarySplit_list TFeatureTensor_empty [split_1_2_bin, split_0_5_bin])
     (AddCatFeature_list TFeatureTensor_empty [9, 8]))) = 2 \<and>
   length (CatFeatures (AddTensor (AddBinarySplit_list TFeatureTensor_empty [split_1_2_bin, split_0_5_bin])
     (AddCatFeature_list TFeatureTensor_empty [9, 8]))) = 2 \<and>
   GetComplexity (AddTensor (AddBinarySplit_list TFeatureTensor_empty [split_1_2_bin, split_0_5_bin])
     (AddCatFeature_list TFeatureTensor_empty [9, 8])) = 3"
proof -
  have v0: "AddCatFeature (AddBinarySplit TFeatureTensor_empty split_1_2_bin) 7
      = \<lparr>Splits = [split_1_2_bin], CatFeatures = [7]\<rparr>"
    by (simp add: eval_defs)
  have v1: "AddCatFeature_list TFeatureTensor_empty [3, 1, 2]
      = \<lparr>Splits = [], CatFeatures = [1, 2, 3]\<rparr>"
    by (simp add: eval_defs)
  have v2: "AddBinarySplit_list TFeatureTensor_empty
     (map (\<lambda>k. TBinarySplit_init 4 k TakeGreater) [5, 4, 3, 2, 1])
      = \<lparr>Splits = map (\<lambda>k. TBinarySplit_init 4 k TakeGreater) [1, 2, 3, 4, 5], CatFeatures = []\<rparr>"
    by (simp add: eval_defs)
  have v3: "AddTensor (AddBinarySplit_list TFeatureTensor_empty [split_1_2_bin, split_0_5_bin])
     (AddCatFeature_list TFeatureTensor_empty [9, 8])
      = \<lparr>Splits = [split_0_5_bin, split_1_2_bin], CatFeatures = [8, 9]\<rparr>"
    by (simp add: eval_defs)
  have c: "canonical \<lparr>Splits = [split_1_2_bin], CatFeatures = [7]\<rparr>"
    by (simp add: eval_defs)
  show ?thesis
    unfolding v0 v1 v2 v3
    using c
      complexity_formula [of "\<lparr>Splits = [split_1_2_bin], CatFeatures = [7]\<rparr>"
        "\<lparr>Splits = [], CatFeatures = [1, 2, 3]\<rparr>"
        "\<lparr>Splits = map (\<lambda>k. TBinarySplit_init 4 k TakeGreater) [1, 2, 3, 4, 5], CatFeatures = []\<rparr>"
        "\<lparr>Splits = [split_0_5_bin, split_1_2_bin], CatFeatures = [8, 9]\<rparr>"]
    by simp
qed



lemma length_le_of_subset: "distinct xs \<Longrightarrow> set xs \<subseteq> set ys \<Longrightarrow> length xs \<le> length ys"
  by (metis card_length card_mono distinct_card List.finite_set le_trans)

lemma apply_mutation_keeps:
  "set (Splits t) \<subseteq> set (Splits (apply_mutation t m))"
  "set (CatFeatures t) \<subseteq> set (CatFeatures (apply_mutation t m))"
  by (cases m; auto simp: Add_fields set_Sort)+

text \<open>
  C10. \<^verbatim>\<open>AddBinarySplit\<close>, in both forms, leaves \<^verbatim>\<open>CatFeatures\<close> as it was, and
  \<^verbatim>\<open>AddCatFeature\<close>, in both forms, leaves \<^verbatim>\<open>Splits\<close> as it was. No mutating call
  (any of the five member functions) removes a split or a categorical feature that was
  there before it, and on a canonical tensor \<^verbatim>\<open>Size\<close> does not decrease.
\<close>

theorem frame_and_growth:
  "CatFeatures (AddBinarySplit t bin) = CatFeatures t \<and>
   CatFeatures (AddBinarySplit_list t splits) = CatFeatures t \<and>
   Splits (AddCatFeature t featureId) = Splits t \<and>
   Splits (AddCatFeature_list t featureIds) = Splits t \<and>
   set (Splits t) \<subseteq> set (Splits (apply_mutation t m)) \<and>
   set (CatFeatures t) \<subseteq> set (CatFeatures (apply_mutation t m)) \<and>
   (canonical t \<longrightarrow> Size t \<le> Size (apply_mutation t m))"
proof -
  have "Size t \<le> Size (apply_mutation t m)" if "canonical t"
  proof -
    from that have "distinct (Splits t)" and "distinct (CatFeatures t)"
      by (simp_all add: canonical_def)
    then have "length (Splits t) \<le> length (Splits (apply_mutation t m))"
      and "length (CatFeatures t) \<le> length (CatFeatures (apply_mutation t m))"
      by (simp_all add: length_le_of_subset apply_mutation_keeps)
    then show ?thesis by (simp add: Size_def)
  qed
  then show ?thesis
    by (simp add: Add_fields apply_mutation_keeps)
qed

theorem frame_and_growth_witness:
  "canonical (AddCatFeature (AddBinarySplit TFeatureTensor_empty split_1_2_bin) 7) \<and>
   Size (AddCatFeature (AddBinarySplit TFeatureTensor_empty split_1_2_bin) 7) = 2 \<and>
   Size (AddTensor (AddCatFeature (AddBinarySplit TFeatureTensor_empty split_1_2_bin) 7)
     (AddCatFeature (AddBinarySplit TFeatureTensor_empty split_0_5_bin) 7)) = 3 \<and>
   Size (AddCatFeature (AddBinarySplit TFeatureTensor_empty split_1_2_bin) 7)
     \<le> Size (apply_mutation (AddCatFeature (AddBinarySplit TFeatureTensor_empty split_1_2_bin) 7)
       (CallAddTensor (AddCatFeature (AddBinarySplit TFeatureTensor_empty split_0_5_bin) 7))) \<and>
   CatFeatures (AddBinarySplit (AddCatFeature (AddBinarySplit TFeatureTensor_empty split_1_2_bin) 7)
     split_0_5_bin) = [7]"
proof -
  have v: "AddCatFeature (AddBinarySplit TFeatureTensor_empty split_1_2_bin) 7
      = \<lparr>Splits = [split_1_2_bin], CatFeatures = [7]\<rparr>"
    "AddCatFeature (AddBinarySplit TFeatureTensor_empty split_0_5_bin) 7
      = \<lparr>Splits = [split_0_5_bin], CatFeatures = [7]\<rparr>"
    by (simp_all add: eval_defs)
  have c: "canonical \<lparr>Splits = [split_1_2_bin], CatFeatures = [7]\<rparr>"
    and s: "Size \<lparr>Splits = [split_1_2_bin], CatFeatures = [7]\<rparr> = 2"
    "Size (AddTensor \<lparr>Splits = [split_1_2_bin], CatFeatures = [7]\<rparr>
       \<lparr>Splits = [split_0_5_bin], CatFeatures = [7]\<rparr>) = 3"
    by (simp_all add: eval_defs)
  show ?thesis
    unfolding v
    using c s
      frame_and_growth [of "\<lparr>Splits = [split_1_2_bin], CatFeatures = [7]\<rparr>" split_0_5_bin
        "[]" 0 "[]" "CallAddTensor \<lparr>Splits = [split_0_5_bin], CatFeatures = [7]\<rparr>"]
    by simp
qed

end
